theory Spec2Isabelle
  imports Complex_Main "HOL-Library.Stream"
begin

section \<open>The glitter material: a discrete / continuous microfacet model\<close>

text \<open>
  This theory embeds \<^verbatim>\<open>src/materials/glitter.cpp\<close>: the reflection cache, the
  density estimator, the cache search, the cone rejection sampler and the three methods
  \<^verbatim>\<open>f\<close>, \<^verbatim>\<open>Sample_f\<close> and \<^verbatim>\<open>Pdf\<close> of \<^verbatim>\<open>flakeBxDF\<close>.

  Conventions of the embedding.
  \<^item> \<^verbatim>\<open>float\<close> and \<^verbatim>\<open>Float\<close> are idealised as \<^typ>\<open>real\<close>: no rounding, no overflow, no
    infinities and no not-a-number value. Nothing below is a statement about rounding: in
    particular the running sum of the cache (a \<^verbatim>\<open>float\<close>) and the sum of the density
    estimator (a \<^verbatim>\<open>double\<close>) are both exact here, and no theorem of the last section
    compares the two.
  \<^item> The entries of the vector \<^verbatim>\<open>DK\<close>, which the source tests for not-a-number, are of
    the type \<open>double\<close> below: a real number or the value \<open>NaN\<close>, with the comparisons
    of IEEE 754 (every comparison with \<open>NaN\<close> is false, \<^verbatim>\<open>!=\<close> is true).
  \<^item> Division is the division of \<^typ>\<open>real\<close>, whose value at divisor \<open>0\<close> is \<open>0\<close>, where the
    program computes an infinity or not-a-number. The theorems of the last section give the
    value of a quotient only where its divisor is not zero.
  \<^item> The global generator behind \<^verbatim>\<open>rand()\<close> is an explicit state: the stream of the numbers
    that the next calls of \<^verbatim>\<open>rand()\<close> return. Every function that draws random numbers takes
    the stream and returns the rest of it.
  \<^item> A \<^verbatim>\<open>std::vector\<close> is a list, \<^verbatim>\<open>push_back\<close> appends at the end.
  \<^item> The two \<^verbatim>\<open>while\<close> loops without a bound are partial functions into \<^typ>\<open>'a option\<close>:
    \<open>None\<close> means that the loop never exits.
\<close>

subsection \<open>Vectors, points and spectra\<close>

datatype Vector3f = Vector3f (vx: real) (vy: real) (vz: real)

datatype Point3f = Point3f (px: real) (py: real) (pz: real)

datatype Point2f = Point2f real real

text \<open>
  Modelled from the spec: the colour type of the renderer (\<^verbatim>\<open>Spectrum\<close>, declared in
  \<^verbatim>\<open>spectrum.h\<close>, which is not part of the source file). The spec asks for an additive and
  multiplicative value type constructible from an RGB triple; it is modelled as the triple
  itself with component-wise operations.
\<close>

datatype Spectrum = RGBSpectrum (cr: real) (cg: real) (cb: real)

definition Spectrum_const :: "real \<Rightarrow> Spectrum" where
  "Spectrum_const v = RGBSpectrum v v v"

definition FromRGB :: "Point3f \<Rightarrow> Spectrum" where
  "FromRGB color = RGBSpectrum (px color) (py color) (pz color)"

definition spec_mul :: "Spectrum \<Rightarrow> Spectrum \<Rightarrow> Spectrum" where
  "spec_mul a b = RGBSpectrum (cr a * cr b) (cg a * cg b) (cb a * cb b)"

definition spec_scale :: "Spectrum \<Rightarrow> real \<Rightarrow> Spectrum" where
  "spec_scale a k = RGBSpectrum (cr a * k) (cg a * k) (cb a * k)"

definition spec_div :: "Spectrum \<Rightarrow> real \<Rightarrow> Spectrum" where
  "spec_div a k = RGBSpectrum (cr a / k) (cg a / k) (cb a / k)"

text \<open>
  Modelled from the spec: the vector helpers of the renderer core (\<^verbatim>\<open>operator+\<close>,
  \<^verbatim>\<open>operator*\<close>, \<^verbatim>\<open>Dot\<close>, \<^verbatim>\<open>Length\<close>, \<^verbatim>\<open>Normalize\<close>, \<^verbatim>\<open>Reflect\<close>, \<^verbatim>\<open>SameHemisphere\<close>,
  \<^verbatim>\<open>AbsCosTheta\<close>), declared in headers that are not part of the source file. The spec
  names them by what they compute: the dot product, the direction reflected about a facet
  normal, the test that two directions lie in the same hemisphere, the magnitude of the
  z component. Directions live in the local shading frame whose z axis is the surface
  normal, so the cosine of the angle to the normal is the z component, two directions are
  in the same hemisphere when their z components have the same sign, and \<open>Reflect wo n\<close>,
  the mirror image of \<open>wo\<close> about \<open>n\<close>, is \<open>- wo + 2 (wo \<cdot> n) n\<close>.
\<close>

definition vec_add :: "Vector3f \<Rightarrow> Vector3f \<Rightarrow> Vector3f" where
  "vec_add a b = Vector3f (vx a + vx b) (vy a + vy b) (vz a + vz b)"

definition vec_scale :: "real \<Rightarrow> Vector3f \<Rightarrow> Vector3f" where
  "vec_scale k a = Vector3f (k * vx a) (k * vy a) (k * vz a)"

definition vec_neg :: "Vector3f \<Rightarrow> Vector3f" where
  "vec_neg a = Vector3f (- vx a) (- vy a) (- vz a)"

definition Dot :: "Vector3f \<Rightarrow> Vector3f \<Rightarrow> real" where
  "Dot a b = vx a * vx b + vy a * vy b + vz a * vz b"

definition Length :: "Vector3f \<Rightarrow> real" where
  "Length a = sqrt (vx a * vx a + vy a * vy a + vz a * vz a)"

definition Normalize :: "Vector3f \<Rightarrow> Vector3f" where
  "Normalize a = Vector3f (vx a / Length a) (vy a / Length a) (vz a / Length a)"

definition Reflect :: "Vector3f \<Rightarrow> Vector3f \<Rightarrow> Vector3f" where
  "Reflect wo n = vec_add (vec_neg wo) (vec_scale (2 * Dot wo n) n)"

definition SameHemisphere :: "Vector3f \<Rightarrow> Vector3f \<Rightarrow> bool" where
  "SameHemisphere w wp \<longleftrightarrow> vz w * vz wp > 0"

definition AbsCosTheta :: "Vector3f \<Rightarrow> real" where
  "AbsCosTheta w = \<bar>vz w\<bar>"

subsection \<open>Random numbers\<close>

text \<open>
  \<^verbatim>\<open>rand()\<close> reads and advances the global generator. \<^verbatim>\<open>RAND_MAX\<close> is the constant of the
  C library (the value of glibc); the macro \<^verbatim>\<open>PI\<close> of the source is the decimal
  \<^verbatim>\<open>3.14159265\<close>, not the number \<open>\<pi>\<close>.
\<close>

type_synonym rng = "nat stream"

definition RAND_MAX :: nat where
  "RAND_MAX = 2147483647"

definition PI :: real where
  "PI = 3.14159265"

definition rand :: "rng \<Rightarrow> nat \<times> rng" where
  "rand s = (shd s, stl s)"

definition RandomFloat :: "real \<Rightarrow> real \<Rightarrow> rng \<Rightarrow> real \<times> rng" where
  "RandomFloat a b s =
     (case rand s of (k, s') \<Rightarrow>
        let random = real k / real RAND_MAX;
            diff = b - a;
            r = random * diff
        in (a + r, s'))"

definition RandomVector :: "rng \<Rightarrow> Vector3f \<times> rng" where
  "RandomVector s =
     (case RandomFloat 0 (PI * 2) s of (phi, s1) \<Rightarrow>
      case RandomFloat (- 1) 1 s1 of (costheta, s2) \<Rightarrow>
        let theta = arccos costheta;
            x = sin theta * cos phi;
            y = sin theta * sin phi;
            z = cos theta
        in (Vector3f x y z, s2))"

subsection \<open>The reflection cache\<close>

text \<open>
  The four vectors that \<^verbatim>\<open>CreateReflectionCache\<close> fills are passed in and returned. The
  loop state carries them together with the running sum \<open>c\<close>; the first argument of
  \<open>CreateReflectionCache_loop\<close> is the number of iterations still to run.
\<close>

type_synonym cache_state =
  "Vector3f list \<times> Vector3f list \<times> real list \<times> real list \<times> real"

fun CreateReflectionCache_loop ::
  "nat \<Rightarrow> Vector3f \<Rightarrow> cache_state \<Rightarrow> rng \<Rightarrow> cache_state \<times> rng" where
  "CreateReflectionCache_loop 0 wo st s = (st, s)"
| "CreateReflectionCache_loop (Suc k) wo (normals, rcache, weights, ctable, c) s =
     (case RandomVector s of (v, s') \<Rightarrow>
        let m = Normalize v;
            r = Reflect wo m;
            r = (if \<not> SameHemisphere wo r then vec_scale (- 1) r else r);
            w = \<bar>Dot m r\<bar>;
            c = c + w
        in CreateReflectionCache_loop k wo
             (normals @ [m], rcache @ [r], weights @ [w], ctable @ [c], c) s')"

definition CreateReflectionCache ::
  "Vector3f \<Rightarrow> Vector3f list \<Rightarrow> Vector3f list \<Rightarrow> real list \<Rightarrow> int \<Rightarrow> real list \<Rightarrow> rng
     \<Rightarrow> (Vector3f list \<times> Vector3f list \<times> real list \<times> real list) \<times> rng" where
  "CreateReflectionCache wo normals rcache weights n ctable s =
     (let c = 0;
          ctable = ctable @ [c]
      in case CreateReflectionCache_loop (nat n) wo (normals, rcache, weights, ctable, c) s of
           ((normals, rcache, weights, ctable, c), s') \<Rightarrow>
             ((normals, rcache, weights, ctable), s'))"

subsection \<open>The density estimator\<close>

text \<open>
  The loop of \<^verbatim>\<open>CalculateDistribution\<close> runs over the indices \<open>0, \<dots>, n - 1\<close> and reads
  \<^verbatim>\<open>weights[i]\<close> and \<^verbatim>\<open>reflectioncache[i]\<close>; every caller passes vectors of \<open>n\<close> entries
  (lemma \<open>cache_shape\<close>), so every read is inside the vectors. The result
  is the vector \<^verbatim>\<open>DK\<close> of two entries: the normalized and the raw density. The weights
  are real numbers here, so the two entries that this function computes are numbers.
\<close>

datatype double = Num real | NaN

text \<open>
  The operators that the source applies to the entries of \<^verbatim>\<open>DK\<close>: \<^verbatim>\<open>==\<close>, \<^verbatim>\<open>!=\<close>, the
  conversion to \<^verbatim>\<open>bool\<close> (of \<^verbatim>\<open>!DK[0]\<close> and \<^verbatim>\<open>DK[1] && \<dots>\<close>: every value but zero is true,
  not-a-number too) and the use as a number. \<open>double_val\<close> is applied only in the two
  discrete branches, which the source enters only when the entry equals itself; its
  value at \<open>NaN\<close> is never used (lemmas \<open>f_regimes_nan\<close> and \<open>Pdf_regimes_nan\<close>).
\<close>

definition double_eq :: "double \<Rightarrow> double \<Rightarrow> bool" where
  "double_eq x y = (case x of NaN \<Rightarrow> False | Num a \<Rightarrow> (case y of NaN \<Rightarrow> False | Num c \<Rightarrow> a = c))"

definition double_ne :: "double \<Rightarrow> double \<Rightarrow> bool" where
  "double_ne x y = (\<not> double_eq x y)"

definition double_true :: "double \<Rightarrow> bool" where
  "double_true x = (case x of NaN \<Rightarrow> True | Num a \<Rightarrow> a \<noteq> 0)"

definition double_val :: "double \<Rightarrow> real" where
  "double_val x = (case x of NaN \<Rightarrow> 0 | Num a \<Rightarrow> a)"

definition CalculateDistribution ::
  "Vector3f \<Rightarrow> real list \<Rightarrow> Vector3f list \<Rightarrow> int \<Rightarrow> real \<Rightarrow> double list" where
  "CalculateDistribution wi weights reflectioncache n gamma =
     (let N = (10::int) ^ 8;
          D = fold (\<lambda>i D. if Dot wi (reflectioncache ! i) \<ge> cos gamma
                            then D + weights ! i else D) [0 ..< nat n] 0
      in [Num (D / real_of_int N), Num D])"

subsection \<open>The cache search\<close>

text \<open>
  Reading a \<^verbatim>\<open>std::vector\<close> outside its bounds is undefined in the source. The search
  computes its indices, so its reads are checked: \<open>read_at xs i\<close> is \<open>None\<close> outside the
  vector, and the search then stops with \<open>OutOfBounds\<close>. The condition of the first
  \<^verbatim>\<open>if\<close> reads \<^verbatim>\<open>ctable[start + 1]\<close> only when \<^verbatim>\<open>ctable[start] < value\<close> holds, as
  \<^verbatim>\<open>&&\<close> does. The division \<^verbatim>\<open>(end - start)/2\<close> is taken of a difference that the loop
  condition makes non-negative, where the division of C++ and \<open>div\<close> agree.
\<close>

datatype 'a outcome = Returned 'a | OutOfBounds

definition read_at :: "'a list \<Rightarrow> int \<Rightarrow> 'a option" where
  "read_at xs i = (if 0 \<le> i \<and> i < int (length xs) then Some (xs ! nat i) else None)"

definition found_at :: "real list \<Rightarrow> real \<Rightarrow> int \<Rightarrow> bool option" where
  "found_at ctable v start =
     (case read_at ctable start of
        None \<Rightarrow> None
      | Some lo \<Rightarrow>
          if lo < v
          then (case read_at ctable (start + 1) of None \<Rightarrow> None | Some hi \<Rightarrow> Some (hi \<ge> v))
          else Some False)"

partial_function (option) BinarySearch_loop ::
  "Vector3f list \<Rightarrow> real list \<Rightarrow> real \<Rightarrow> int \<Rightarrow> int \<Rightarrow> Vector3f outcome option" where
  "BinarySearch_loop cache ctable v start end =
     (if start \<le> end then
        (let middle = start + (end - start) div 2 in
         case found_at ctable v start of
           None \<Rightarrow> Some OutOfBounds
         | Some hit \<Rightarrow>
             if hit then
               (case read_at cache start of
                  None \<Rightarrow> Some OutOfBounds
                | Some r \<Rightarrow> Some (Returned r))
             else
               (case read_at ctable middle of
                  None \<Rightarrow> Some OutOfBounds
                | Some mid \<Rightarrow>
                    if mid \<ge> v
                    then BinarySearch_loop cache ctable v start middle
                    else BinarySearch_loop cache ctable v middle end))
      else Some (Returned (Vector3f 0 0 0)))"

definition BinarySearch ::
  "Vector3f list \<Rightarrow> real list \<Rightarrow> real \<Rightarrow> int \<Rightarrow> Vector3f outcome option" where
  "BinarySearch cache ctable v n = BinarySearch_loop cache ctable v 0 n"

subsection \<open>The cone rejection sampler\<close>

partial_function (option) GenerateBRDFi ::
  "Vector3f \<Rightarrow> real \<Rightarrow> rng \<Rightarrow> (Vector3f \<times> rng) option" where
  "GenerateBRDFi r gamma s =
     (case RandomVector s of (i, s') \<Rightarrow>
        let i = Normalize i
        in if Dot i r \<ge> cos gamma then Some (i, s') else GenerateBRDFi r gamma s')"

subsection \<open>The scattering model\<close>

text \<open>
  The members of \<^verbatim>\<open>flakeBxDF\<close> and its collaborators. The class declaration
  (\<^verbatim>\<open>glitter.h\<close>), the Fresnel model, the continuous microfacet distribution and the tint
  sampler (\<^verbatim>\<open>sampleHSL.h\<close>) are not part of the source file: they are parameters here,
  with the interface the source uses. \<open>fresnel\<close> stands for \<^verbatim>\<open>fresnel->Evaluate\<close>; the
  methods \<^verbatim>\<open>D\<close>, \<^verbatim>\<open>G\<close>, \<^verbatim>\<open>Sample_wh\<close> and \<^verbatim>\<open>Pdf\<close> of the distribution carry the prefix
  \<open>md\<close>. \<^verbatim>\<open>SampleFromHSL\<close> may draw random numbers.
\<close>

record MicrofacetDistribution =
  md_D :: "Vector3f \<Rightarrow> real"
  md_G :: "Vector3f \<Rightarrow> Vector3f \<Rightarrow> real"
  md_Sample_wh :: "Vector3f \<Rightarrow> Point2f \<Rightarrow> Vector3f"
  md_Pdf :: "Vector3f \<Rightarrow> Vector3f \<Rightarrow> real"

record flakeBxDF =
  R :: Spectrum
  flakenumber :: int
  gamma :: real
  area_A :: real
  fresnel :: "real \<Rightarrow> Spectrum"
  distribution :: MicrofacetDistribution

record sampleHSL =
  SampleFromHSL :: "rng \<Rightarrow> Point3f \<times> rng"
  AverageColor :: Point3f

text \<open>
  \<open>f_traced\<close> is the body of \<^verbatim>\<open>flakeBxDF::f\<close>. Besides the value it returns which
  \<^verbatim>\<open>return\<close> statement produced it: one of the early returns (\<open>Degenerate\<close>), the
  discrete branch, the continuous branch, or the final \<^verbatim>\<open>return Spectrum(0.)\<close> after both
  (\<open>Neither\<close>). \<open>f\<close> forgets the trace.

  The body is in two parts. \<open>f_regimes\<close> is the second part, from the validation check
  of \<^verbatim>\<open>DK\<close> to the end, as a function of \<^verbatim>\<open>DK\<close> and of the generator state left by the
  cache; \<open>wh\<close> is the half-vector as normalized before the check. \<open>f_traced\<close> is the
  first part, which ends by computing \<^verbatim>\<open>DK\<close> and running the second.
\<close>

datatype regime = Degenerate | Discrete | Continuous | Neither

definition f_regimes ::
  "sampleHSL \<Rightarrow> flakeBxDF \<Rightarrow> Vector3f \<Rightarrow> Vector3f \<Rightarrow> Vector3f \<Rightarrow> double list \<Rightarrow> rng
     \<Rightarrow> (regime \<times> Spectrum) \<times> rng" where
  "f_regimes H b wo wi wh DK s1 =
     (let cosThetaO = AbsCosTheta wo; cosThetaI = AbsCosTheta wi in
      if double_ne (DK ! 0) (DK ! 0) \<or> \<not> double_true (DK ! 0)
      then ((Degenerate, Spectrum_const 0), s1)
      else
        let flag = double_eq (DK ! 0) (DK ! 0);
            bmin = 1000; bmax = 1000 in
        if flakenumber b < bmin \<and> flag then
          (let wh = Normalize wh;
               F = fresnel b (Dot wi wh) in
           case SampleFromHSL H s1 of (sampleColor, s2) \<Rightarrow>
           let F = spec_mul F (FromRGB sampleColor);
               conearea = 2 * PI * (1 - cos (gamma b));
               distri = double_val (DK ! 0) * (4 / (\<bar>area_A b\<bar> * conearea))
           in ((Discrete,
                spec_div (spec_scale (spec_mul (R b) F) distri)
                  (4 * cosThetaI * cosThetaO * 200)), s2))
        else if flakenumber b \<ge> bmax \<or> \<not> flag then
          (let F = fresnel b (Dot wi wh);
               sampleColor = AverageColor H;
               F = spec_mul F (FromRGB sampleColor)
           in ((Continuous,
                spec_div
                  (spec_mul
                     (spec_scale (spec_scale (R b) (md_D (distribution b) wh))
                        (md_G (distribution b) wo wi)) F)
                  (4 * cosThetaI * cosThetaO)), s1))
        else ((Neither, Spectrum_const 0), s1))"

definition f_traced ::
  "sampleHSL \<Rightarrow> flakeBxDF \<Rightarrow> Vector3f \<Rightarrow> Vector3f \<Rightarrow> rng \<Rightarrow> (regime \<times> Spectrum) \<times> rng" where
  "f_traced H b wo wi s =
     (let cosThetaO = AbsCosTheta wo; cosThetaI = AbsCosTheta wi in
      if cosThetaI = 0 \<or> cosThetaO = 0 then ((Degenerate, Spectrum_const 0), s)
      else
        let wh = vec_add wi wo in
        if vx wh = 0 \<and> vy wh = 0 \<and> vz wh = 0 then ((Degenerate, Spectrum_const 0), s)
        else
          let wh = Normalize wh in
          if flakenumber b = 0 then ((Degenerate, Spectrum_const 0), s)
          else
            case CreateReflectionCache wo [] [] [] (flakenumber b) [] s of
              ((normals, reflectioncache, weights, ctable), s1) \<Rightarrow>
            let DK = CalculateDistribution wi weights reflectioncache (flakenumber b) (gamma b)
            in f_regimes H b wo wi wh DK s1)"

definition f :: "sampleHSL \<Rightarrow> flakeBxDF \<Rightarrow> Vector3f \<Rightarrow> Vector3f \<Rightarrow> rng \<Rightarrow> Spectrum \<times> rng" where
  "f H b wo wi s = (case f_traced H b wo wi s of ((t, v), s') \<Rightarrow> (v, s'))"

text \<open>
  \<^verbatim>\<open>flakeBxDF::Pdf\<close> is split in the same way: \<open>Pdf_regimes\<close> is the part from the check
  of \<^verbatim>\<open>DK\<close> to the end.
\<close>

definition Pdf_regimes ::
  "flakeBxDF \<Rightarrow> Vector3f \<Rightarrow> Vector3f \<Rightarrow> real list \<Rightarrow> double list \<Rightarrow> rng \<Rightarrow> real \<times> rng" where
  "Pdf_regimes b wo wi ctable DK s1 =
     (if double_ne (DK ! 1) (DK ! 1) then (0, s1)
      else
        let flag = ((double_true (DK ! 1) \<and> double_eq (DK ! 1) (DK ! 1)) \<and> flakenumber b \<noteq> 0);
            bmin = 1000; bmax = 1000 in
        if flakenumber b < bmin \<and> flag then
          (double_val (DK ! 1) / (PI * (1 - cos (gamma b)) * ctable ! nat (flakenumber b)), s1)
        else if flakenumber b \<ge> bmax \<or> \<not> flag then
          (let wh = Normalize (vec_add wo wi)
           in (md_Pdf (distribution b) wo wh / (4 * Dot wo wh), s1))
        else (0, s1))"

definition Pdf :: "flakeBxDF \<Rightarrow> Vector3f \<Rightarrow> Vector3f \<Rightarrow> rng \<Rightarrow> real \<times> rng" where
  "Pdf b wo wi s =
     (if \<not> SameHemisphere wo wi then (0, s)
      else if flakenumber b \<le> 0 then (0, s)
      else
        case CreateReflectionCache wo [] [] [] (flakenumber b) [] s of
          ((normals, reflectioncache, weights, ctable), s1) \<Rightarrow>
        let DK = CalculateDistribution wi weights reflectioncache (flakenumber b) (gamma b)
        in Pdf_regimes b wo wi ctable DK s1)"

text \<open>
  \<^verbatim>\<open>Sample_f\<close> writes its results through pointers. \<open>sf_wi\<close> is \<open>None\<close> when \<^verbatim>\<open>*wi\<close> was not
  written, and \<open>sf_pdf\<close> is \<open>None\<close> when \<^verbatim>\<open>*pdf\<close> was not written; the argument \<open>pdf\<close>
  says whether the caller passed a non-null \<^verbatim>\<open>pdf\<close>. \<open>sf_branch\<close> records the branch that
  returned, as in \<open>f_traced\<close>. The result is \<open>None\<close> when the search or the rejection
  sampler never returns. The parameter \<^verbatim>\<open>sampledType\<close> is neither read nor written and is
  left out.
\<close>

record Sample =
  sf_value :: Spectrum
  sf_wi :: "Vector3f option"
  sf_pdf :: "real option"
  sf_branch :: regime

definition Sample_f ::
  "sampleHSL \<Rightarrow> flakeBxDF \<Rightarrow> Vector3f \<Rightarrow> Point2f \<Rightarrow> bool \<Rightarrow> rng
     \<Rightarrow> (Sample \<times> rng) outcome option" where
  "Sample_f H b wo u pdf s =
     (if vz wo = 0 then
        Some (Returned (\<lparr>sf_value = Spectrum_const 0, sf_wi = None, sf_pdf = None,
                          sf_branch = Degenerate\<rparr>, s))
      else if flakenumber b \<le> 0 then
        Some (Returned (\<lparr>sf_value = Spectrum_const 0, sf_wi = None, sf_pdf = None,
                          sf_branch = Degenerate\<rparr>, s))
      else
        case CreateReflectionCache wo [] [] [] (flakenumber b) [] s of
          ((normals, reflectioncache, weights, ctable), s1) \<Rightarrow>
        let bmin = 1000; bmax = 1000 in
        if flakenumber b < bmin then
          (case RandomFloat 0 (ctable ! nat (flakenumber b)) s1 of (randomvalue, s2) \<Rightarrow>
            (case BinarySearch reflectioncache ctable randomvalue (flakenumber b) of
               None \<Rightarrow> None
             | Some OutOfBounds \<Rightarrow> Some OutOfBounds
             | Some (Returned r) \<Rightarrow>
                 (case GenerateBRDFi r (gamma b) s2 of
                    None \<Rightarrow> None
                  | Some (wi, s3) \<Rightarrow>
                      if \<not> SameHemisphere wo wi then
                        Some (Returned (\<lparr>sf_value = Spectrum_const 0, sf_wi = Some wi,
                                          sf_pdf = None, sf_branch = Discrete\<rparr>, s3))
                      else
                        (case (if pdf then (case Pdf b wo wi s3 of (p, s4) \<Rightarrow> (Some p, s4))
                               else (None, s3)) of
                           (p, s4) \<Rightarrow>
                             (case f H b wo wi s4 of
                                (v, s5) \<Rightarrow>
                                  Some (Returned (\<lparr>sf_value = v, sf_wi = Some wi, sf_pdf = p,
                                                    sf_branch = Discrete\<rparr>, s5)))))))
        else if flakenumber b \<ge> bmax then
          (let wh = md_Sample_wh (distribution b) wo u;
               wi = Reflect wo wh in
           if \<not> SameHemisphere wo wi then
             Some (Returned (\<lparr>sf_value = Spectrum_const 0, sf_wi = Some wi,
                               sf_pdf = None, sf_branch = Continuous\<rparr>, s1))
           else
             let p = (if pdf then Some (md_Pdf (distribution b) wo wh / (4 * Dot wo wh))
                      else None) in
             case f H b wo wi s1 of (v, s2) \<Rightarrow>
               Some (Returned (\<lparr>sf_value = v, sf_wi = Some wi, sf_pdf = p,
                                 sf_branch = Continuous\<rparr>, s2)))
        else
          Some (Returned (\<lparr>sf_value = Spectrum_const 0, sf_wi = None, sf_pdf = None,
                            sf_branch = Neither\<rparr>, s1)))"

subsection \<open>Auxiliary notions\<close>

text \<open>
  Notions used to state and prove the properties below. \<open>unit_vec\<close> says that a vector has
  length one, \<open>cache_entry\<close> is the entry (normal, reflected direction, weight) that one
  iteration of the cache loop computes from its random vector, \<open>random_vectors k\<close> are the
  \<open>k\<close> vectors that \<open>k\<close> successive calls of \<open>RandomVector\<close> return, and \<open>cumulative c ws\<close>
  are the running sums of \<open>ws\<close> starting after \<open>c\<close>.
\<close>

definition unit_vec :: "Vector3f \<Rightarrow> bool" where
  "unit_vec v \<longleftrightarrow> Dot v v = 1"

definition cache_entry :: "Vector3f \<Rightarrow> Vector3f \<Rightarrow> Vector3f \<times> Vector3f \<times> real" where
  "cache_entry wo v =
     (let m = Normalize v;
          r = Reflect wo m;
          r = (if \<not> SameHemisphere wo r then vec_scale (- 1) r else r)
      in (m, r, \<bar>Dot m r\<bar>))"

fun random_vectors :: "nat \<Rightarrow> rng \<Rightarrow> Vector3f list \<times> rng" where
  "random_vectors 0 s = ([], s)"
| "random_vectors (Suc k) s =
     (case RandomVector s of (v, s') \<Rightarrow>
      case random_vectors k s' of (vs, s'') \<Rightarrow> (v # vs, s''))"

fun cumulative :: "real \<Rightarrow> real list \<Rightarrow> real list" where
  "cumulative c [] = []"
| "cumulative c (w # ws) = (c + w) # cumulative (c + w) ws"

text \<open>
  The sum that \<^verbatim>\<open>CalculateDistribution\<close> accumulates in \<^verbatim>\<open>D\<close>, as a real number: the
  total weight of the cache entries whose reflected direction lies within the cone of
  half-angle \<open>g\<close> about \<open>wi\<close>.
\<close>

definition raw_density :: "Vector3f \<Rightarrow> real list \<Rightarrow> Vector3f list \<Rightarrow> int \<Rightarrow> real \<Rightarrow> real" where
  "raw_density wi weights reflectioncache n g =
     fold (\<lambda>i D. if Dot wi (reflectioncache ! i) \<ge> cos g
                  then D + weights ! i else D) [0 ..< nat n] 0"

text \<open>
  A generator state for running the model on concrete inputs: every call of \<^verbatim>\<open>rand()\<close>
  returns \<open>0\<close>.
\<close>

definition zero_tape :: rng where
  "zero_tape = sconst 0"

text \<open>
  Fixed stand-ins for the collaborators, used to run the model on concrete inputs: a
  distribution whose \<^verbatim>\<open>D\<close>, \<^verbatim>\<open>G\<close> and \<^verbatim>\<open>Pdf\<close> are constantly \<open>1\<close> and whose \<^verbatim>\<open>Sample_wh\<close>
  returns a given vector, a white material with a white Fresnel term and area \<open>1\<close>, and a
  white tint that draws no random number.
\<close>

definition standin_distribution :: "Vector3f \<Rightarrow> MicrofacetDistribution" where
  "standin_distribution wh =
     \<lparr>md_D = (\<lambda>_. 1), md_G = (\<lambda>_ _. 1), md_Sample_wh = (\<lambda>_ _. wh), md_Pdf = (\<lambda>_ _. 1)\<rparr>"

definition standin_bxdf :: "int \<Rightarrow> real \<Rightarrow> MicrofacetDistribution \<Rightarrow> flakeBxDF" where
  "standin_bxdf n g d =
     \<lparr>R = Spectrum_const 1, flakenumber = n, gamma = g, area_A = 1,
      fresnel = (\<lambda>_. Spectrum_const 1), distribution = d\<rparr>"

definition standin_tint :: sampleHSL where
  "standin_tint = \<lparr>SampleFromHSL = (\<lambda>s. (Point3f 1 1 1, s)), AverageColor = Point3f 1 1 1\<rparr>"


text \<open>
  The values of the two branches of \<open>f_traced\<close>, as functions of what each branch reads:
  the discrete branch reads the normalized density \<open>DK[0]\<close> and the generator (for the
  tint), the continuous branch neither.
\<close>

definition f_discrete ::
  "sampleHSL \<Rightarrow> flakeBxDF \<Rightarrow> Vector3f \<Rightarrow> Vector3f \<Rightarrow> real \<Rightarrow> rng \<Rightarrow> Spectrum \<times> rng" where
  "f_discrete H b wo wi DK0 s1 =
     (let wh = Normalize (Normalize (vec_add wi wo));
          F = fresnel b (Dot wi wh)
      in case SampleFromHSL H s1 of (sampleColor, s2) \<Rightarrow>
         let F = spec_mul F (FromRGB sampleColor);
             conearea = 2 * PI * (1 - cos (gamma b));
             distri = DK0 * (4 / (\<bar>area_A b\<bar> * conearea))
         in (spec_div (spec_scale (spec_mul (R b) F) distri)
               (4 * AbsCosTheta wi * AbsCosTheta wo * 200), s2))"

definition f_continuous ::
  "sampleHSL \<Rightarrow> flakeBxDF \<Rightarrow> Vector3f \<Rightarrow> Vector3f \<Rightarrow> Spectrum" where
  "f_continuous H b wo wi =
     (let wh = Normalize (vec_add wi wo);
          F = spec_mul (fresnel b (Dot wi wh)) (FromRGB (AverageColor H))
      in spec_div
           (spec_mul
              (spec_scale (spec_scale (R b) (md_D (distribution b) wh))
                 (md_G (distribution b) wo wi)) F)
           (4 * AbsCosTheta wi * AbsCosTheta wo))"

text \<open>
  The closed form that the spec gives for the continuous regime, in the words of the spec:
  reflectance times \<open>D\<close> times \<open>G\<close> times Fresnel times the average tint, divided by
  \<open>4 cos \<theta>\<^sub>i cos \<theta>\<^sub>o\<close>, for each colour component.
\<close>

definition microfacet_closed_form ::
  "Spectrum \<Rightarrow> real \<Rightarrow> real \<Rightarrow> Spectrum \<Rightarrow> Spectrum \<Rightarrow> real \<Rightarrow> real \<Rightarrow> Spectrum" where
  "microfacet_closed_form Rc Dv Gv Fr tint cosThetaI cosThetaO =
     RGBSpectrum (cr Rc * Dv * Gv * cr Fr * cr tint / (4 * cosThetaI * cosThetaO))
                 (cg Rc * Dv * Gv * cg Fr * cg tint / (4 * cosThetaI * cosThetaO))
                 (cb Rc * Dv * Gv * cb Fr * cb tint / (4 * cosThetaI * cosThetaO))"

text \<open>
  More concrete inputs: the stand-in material whose distribution samples the surface normal
  as half-vector, and a generator state that makes a cache of \<open>k\<close> downward normals, then
  selects the last cache entry, then samples the surface normal, then returns zeros.
\<close>

definition axis_bxdf :: "int \<Rightarrow> real \<Rightarrow> flakeBxDF" where
  "axis_bxdf n g = standin_bxdf n g (standin_distribution (Vector3f 0 0 1))"



text \<open>
  A stand-in material whose distribution samples the half-vector \<open>(0, 0, -1)\<close>, on the side
  of the surface opposite to the outgoing direction \<open>(0, 0, 1)\<close>.
\<close>

definition flipped_bxdf :: "int \<Rightarrow> real \<Rightarrow> flakeBxDF" where
  "flipped_bxdf n g = standin_bxdf n g (standin_distribution (Vector3f 0 0 (- 1)))"


section \<open>Lemmas\<close>

subsection \<open>Unit vectors\<close>






lemma loop_char:
  "CreateReflectionCache_loop k wo (N, RC, W, CT, c) s =
     (case random_vectors k s of (vs, s') \<Rightarrow>
        let es = map (cache_entry wo) vs; ws = map (snd \<circ> snd) es
        in ((N @ map fst es, RC @ map (fst \<circ> snd) es, W @ ws, CT @ cumulative c ws,
             c + sum_list ws), s'))"
proof (induction k arbitrary: N RC W CT c s)
  case 0
  show ?case by simp
next
  case (Suc k)
  show ?case
    by (simp add: Suc.IH Let_def cache_entry_def split: prod.split)
qed

lemma CreateReflectionCache_char:
  "CreateReflectionCache wo [] [] [] n [] s =
     (case random_vectors (nat n) s of (vs, s') \<Rightarrow>
        let es = map (cache_entry wo) vs; ws = map (snd \<circ> snd) es
        in ((map fst es, map (fst \<circ> snd) es, ws, 0 # cumulative 0 ws), s'))"
  by (simp add: CreateReflectionCache_def loop_char Let_def split: prod.split)

lemma length_random_vectors: "random_vectors k s = (vs, s') \<Longrightarrow> length vs = k"
  by (induction k arbitrary: s vs) (auto split: prod.splits)

lemma length_cumulative: "length (cumulative c ws) = length ws"
  by (induction ws arbitrary: c) auto

lemma cumulative_nth:
  "i < length ws \<Longrightarrow> cumulative c ws ! i = c + sum_list (take (Suc i) ws)"
proof (induction ws arbitrary: c i)
  case Nil
  then show ?case by simp
next
  case (Cons w ws)
  show ?case
  proof (cases i)
    case 0
    then show ?thesis by simp
  next
    case (Suc j)
    with Cons.prems have "j < length ws" by simp
    from Cons.IH [OF this, of "c + w"] Suc show ?thesis by simp
  qed
qed

lemma ctable_nth:
  "i \<le> length ws \<Longrightarrow> (0 # cumulative 0 ws) ! i = sum_list (take i ws)"
  by (cases i) (simp_all add: cumulative_nth)

subsection \<open>The reflection cache and its cumulative table\<close>

lemma cache_entry_weight_nonneg: "0 \<le> snd (snd (cache_entry wo v))"
  by (simp add: cache_entry_def Let_def)

lemma cache_shape:
  assumes "CreateReflectionCache wo [] [] [] n [] s = ((normals, rcache, weights, ctable), s')"
  shows "length normals = nat n" "length rcache = nat n" "length weights = nat n"
    "ctable = 0 # cumulative 0 weights" "\<forall>w \<in> set weights. 0 \<le> w"
proof -
  obtain vs t where rv: "random_vectors (nat n) s = (vs, t)"
    by (cases "random_vectors (nat n) s")
  have len: "length vs = nat n"
    using rv by (rule length_random_vectors)
  from assms rv have eqs:
    "normals = map fst (map (cache_entry wo) vs)"
    "rcache = map (fst \<circ> snd) (map (cache_entry wo) vs)"
    "weights = map (snd \<circ> snd) (map (cache_entry wo) vs)"
    "ctable = 0 # cumulative 0 (map (snd \<circ> snd) (map (cache_entry wo) vs))"
    by (auto simp: CreateReflectionCache_char Let_def)
  show "length normals = nat n" "length rcache = nat n" "length weights = nat n"
    using eqs len by simp_all
  show "ctable = 0 # cumulative 0 weights"
    using eqs by simp
  show "\<forall>w \<in> set weights. 0 \<le> w"
    using eqs(3) by (auto simp: cache_entry_weight_nonneg)
qed

lemma sum_take_Suc:
  fixes ws :: "real list"
  shows "i < length ws \<Longrightarrow> sum_list (take (Suc i) ws) = sum_list (take i ws) + ws ! i"
  by (simp add: take_Suc_conv_app_nth)

lemma ctable_step:
  "i < length ws \<Longrightarrow>
     (0 # cumulative 0 ws) ! (i + 1) = (0 # cumulative 0 ws) ! i + ws ! i"
proof -
  assume i: "i < length ws"
  have "(0 # cumulative 0 ws) ! (i + 1) = sum_list (take (Suc i) ws)"
    using i ctable_nth [of "Suc i" ws] by simp
  moreover have "(0 # cumulative 0 ws) ! i = sum_list (take i ws)"
    using i ctable_nth [of i ws] by simp
  ultimately show ?thesis
    using i by (simp add: sum_take_Suc)
qed

lemma ctable_sorted:
  assumes "\<forall>w \<in> set ws. (0::real) \<le> w"
  shows "sorted (0 # cumulative 0 ws)"
proof -
  have "(0 # cumulative 0 ws) ! i \<le> (0 # cumulative 0 ws) ! Suc i"
    if "Suc i < length (0 # cumulative 0 ws)" for i
  proof -
    from that have i: "i < length ws" by (simp add: length_cumulative)
    then have "0 \<le> ws ! i" using assms by simp
    with ctable_step [OF i] show ?thesis by simp
  qed
  then show ?thesis
    by (simp only: sorted_iff_nth_Suc) blast
qed

lemma ctable_last: "(0 # cumulative 0 ws) ! length ws = sum_list ws"
  using ctable_nth [of "length ws" ws] by simp

lemma zero_tape_simps [simp]: "shd zero_tape = 0" "stl zero_tape = zero_tape"
  by (simp_all add: zero_tape_def)

lemma RandomVector_zero_tape:
  "RandomVector zero_tape = (Vector3f 0 0 (- 1), zero_tape)"
  by (simp add: RandomVector_def RandomFloat_def rand_def Let_def)

lemma cache_entry_axis:
  "cache_entry (Vector3f 0 0 1) (Vector3f 0 0 (- 1)) = (Vector3f 0 0 (- 1), Vector3f 0 0 1, 1)"
  by (simp add: cache_entry_def Normalize_def Length_def Reflect_def Dot_def vec_add_def
      vec_neg_def vec_scale_def SameHemisphere_def Let_def)

subsection \<open>Weights of the cache entries\<close>






lemma sum_list_nonneg_real:
  fixes ws :: "real list"
  shows "\<forall>w \<in> set ws. 0 \<le> w \<Longrightarrow> 0 \<le> sum_list ws"
  by (induction ws) auto

subsection \<open>The density estimate\<close>

lemma fold_cone_sum:
  fixes ws :: "real list"
  shows "fold (\<lambda>i D. if P i then D + ws ! i else D) [0 ..< k] d
         = d + (\<Sum>i = 0 ..< k. if P i then ws ! i else 0)"
  by (induction k) simp_all

lemma double_simps [simp]:
  "double_eq (Num a) (Num c) \<longleftrightarrow> a = c" "\<not> double_eq NaN y" "\<not> double_eq x NaN"
  "double_ne (Num a) (Num c) \<longleftrightarrow> a \<noteq> c" "double_ne NaN y" "double_ne x NaN"
  "double_true (Num a) \<longleftrightarrow> a \<noteq> 0" "double_true NaN"
  "double_val (Num a) = a"
  by (simp_all add: double_eq_def double_ne_def double_true_def double_val_def split: double.split)

lemma CalculateDistribution_list [simp]:
  "CalculateDistribution wi weights rc n g
     = [Num (raw_density wi weights rc n g / 100000000), Num (raw_density wi weights rc n g)]"
  by (simp add: CalculateDistribution_def raw_density_def Let_def)

lemma raw_density_sum:
  "raw_density wi weights rc n g
     = (\<Sum>i = 0 ..< nat n. if Dot wi (rc ! i) \<ge> cos g then weights ! i else 0)"
  by (simp add: raw_density_def fold_cone_sum)




subsection \<open>Runs on concrete inputs\<close>

lemma standin_bxdf_simps [simp]:
  "flakenumber (standin_bxdf n g d) = n" "gamma (standin_bxdf n g d) = g"
  "area_A (standin_bxdf n g d) = 1" "R (standin_bxdf n g d) = Spectrum_const 1"
  "fresnel (standin_bxdf n g d) c = Spectrum_const 1" "distribution (standin_bxdf n g d) = d"
  by (simp_all add: standin_bxdf_def)

lemma standin_distribution_simps [simp]:
  "md_D (standin_distribution wh) v = 1" "md_G (standin_distribution wh) v w = 1"
  "md_Sample_wh (standin_distribution wh) v u = wh" "md_Pdf (standin_distribution wh) v w = 1"
  by (simp_all add: standin_distribution_def)

lemma standin_tint_simps [simp]:
  "SampleFromHSL standin_tint s = (Point3f 1 1 1, s)" "AverageColor standin_tint = Point3f 1 1 1"
  by (simp_all add: standin_tint_def)

lemma unit_vec_axis [simp]: "unit_vec (Vector3f 0 0 1)" "unit_vec (Vector3f 0 0 (- 1))"
  by (simp_all add: unit_vec_def Dot_def)

lemma random_vectors_zero_tape:
  "random_vectors k zero_tape = (replicate k (Vector3f 0 0 (- 1)), zero_tape)"
  by (induction k) (simp_all add: RandomVector_zero_tape)

lemma cache_axis:
  "CreateReflectionCache (Vector3f 0 0 1) [] [] [] n [] zero_tape =
     ((replicate (nat n) (Vector3f 0 0 (- 1)), replicate (nat n) (Vector3f 0 0 1),
       replicate (nat n) 1, 0 # cumulative 0 (replicate (nat n) 1)), zero_tape)"
  by (simp add: CreateReflectionCache_char random_vectors_zero_tape cache_entry_axis Let_def)

lemma cache_axis_2:
  "CreateReflectionCache (Vector3f 0 0 1) [] [] [] 2 [] zero_tape =
     (([Vector3f 0 0 (- 1), Vector3f 0 0 (- 1)], [Vector3f 0 0 1, Vector3f 0 0 1],
       [1, 1], [0, 1, 2]), zero_tape)"
  by (simp add: cache_axis numeral_2_eq_2)

lemma density_axis:
  assumes "cos g \<le> 1"
  shows "raw_density (Vector3f 0 0 1) (replicate (nat n) 1)
           (replicate (nat n) (Vector3f 0 0 1)) n g = real (nat n)"
proof -
  have "raw_density (Vector3f 0 0 1) (replicate (nat n) 1)
           (replicate (nat n) (Vector3f 0 0 1)) n g
        = (\<Sum>i = 0 ..< nat n. if Dot (Vector3f 0 0 1) (replicate (nat n) (Vector3f 0 0 1) ! i) \<ge> cos g
           then replicate (nat n) (1::real) ! i else 0)"
    by (rule raw_density_sum)
  also have "\<dots> = (\<Sum>i = 0 ..< nat n. 1)"
    by (rule sum.cong) (simp_all add: Dot_def assms)
  also have "\<dots> = real (nat n)"
    by simp
  finally show ?thesis .
qed

subsection \<open>The cache search\<close>

lemma read_at_in_range:
  "0 \<le> i \<Longrightarrow> i < int (length xs) \<Longrightarrow> read_at xs i = Some (xs ! nat i)"
  by (simp add: read_at_def)

lemma found_at_in_range:
  assumes "0 \<le> start" "start + 1 < int (length ctable)"
  shows "found_at ctable v start
           = Some (ctable ! nat start < v \<and> v \<le> ctable ! nat (start + 1))"
  using assms by (simp add: found_at_def read_at_def)

lemma BinarySearch_loop_finds:
  assumes len: "int (length ctable) = n + 1" "int (length cache) = n"
    and inv: "0 \<le> start" "start < end" "end \<le> n"
             "ctable ! nat start < v" "v \<le> ctable ! nat end"
  shows "\<exists>i. start \<le> i \<and> i < end \<and>
           BinarySearch_loop cache ctable v start end = Some (Returned (cache ! nat i)) \<and>
           ctable ! nat i < v \<and> v \<le> ctable ! nat (i + 1)"
  using inv
proof (induction "nat (end - start)" arbitrary: start "end" rule: less_induct)
  case less
  note bounds = \<open>0 \<le> start\<close> \<open>start < end\<close> \<open>end \<le> n\<close>
  define middle where "middle = start + (end - start) div 2"
  have fa: "found_at ctable v start
              = Some (ctable ! nat start < v \<and> v \<le> ctable ! nat (start + 1))"
    using bounds len by (intro found_at_in_range) auto
  have rc: "read_at cache start = Some (cache ! nat start)"
    using bounds len by (intro read_at_in_range) auto
  show ?case
  proof (cases "v \<le> ctable ! nat (start + 1)")
    case True
    have "BinarySearch_loop cache ctable v start end = Some (Returned (cache ! nat start))"
      using bounds True less.prems(4)
      by (subst BinarySearch_loop.simps) (simp add: fa rc Let_def)
    with True less.prems(4) bounds show ?thesis
      by (intro exI [of _ start]) simp
  next
    case False
    with less.prems(5) have "end \<noteq> start + 1" by auto
    with bounds have far: "start + 2 \<le> end" by simp
    then have mid: "start < middle" "middle < end"
      by (simp_all add: middle_def)
    have rm: "read_at ctable middle = Some (ctable ! nat middle)"
      using mid bounds len by (intro read_at_in_range) auto
    show ?thesis
    proof (cases "v \<le> ctable ! nat middle")
      case True
      have step: "BinarySearch_loop cache ctable v start end
                    = BinarySearch_loop cache ctable v start middle"
        using bounds False True less.prems(4)
        by (subst BinarySearch_loop.simps) (simp add: fa rm Let_def middle_def [symmetric])
      have "nat (middle - start) < nat (end - start)"
        using mid by simp
      from less.hyps [OF this \<open>0 \<le> start\<close> mid(1) _ less.prems(4) True] mid bounds
      obtain i where "start \<le> i" "i < middle"
        "BinarySearch_loop cache ctable v start middle = Some (Returned (cache ! nat i))"
        "ctable ! nat i < v" "v \<le> ctable ! nat (i + 1)"
        by auto
      with step mid show ?thesis
        by (intro exI [of _ i]) simp
    next
      case below: False
      then have lt: "ctable ! nat middle < v" by simp
      have step: "BinarySearch_loop cache ctable v start end
                    = BinarySearch_loop cache ctable v middle end"
        using bounds False below less.prems(4)
        by (subst BinarySearch_loop.simps) (simp add: fa rm Let_def middle_def [symmetric])
      have "nat (end - middle) < nat (end - start)"
        using mid by simp
      from less.hyps [OF this _ mid(2) \<open>end \<le> n\<close> lt less.prems(5)] mid bounds
      obtain i where "middle \<le> i" "i < end"
        "BinarySearch_loop cache ctable v middle end = Some (Returned (cache ! nat i))"
        "ctable ! nat i < v" "v \<le> ctable ! nat (i + 1)"
        by auto
      with step mid show ?thesis
        by (intro exI [of _ i]) simp
    qed
  qed
qed

lemma BinarySearch_loop_stuck:
  assumes "BinarySearch_loop cache ctable v start end = Some y"
  shows "\<not> (start = 0 \<and> 0 \<le> end \<and> end < int (length ctable) \<and>
            (\<forall>j < length ctable. v \<le> ctable ! j))"
proof (rule BinarySearch_loop.raw_induct
    [where P = "\<lambda>cache ctable v start end y.
        \<not> (start = 0 \<and> 0 \<le> end \<and> end < int (length ctable) \<and>
           (\<forall>j < length ctable. v \<le> ctable ! j))", OF _ assms])
  fix loop cache ctable v start "end" and y :: "Vector3f outcome"
  assume IH: "\<And>cache ctable v start end y. loop cache ctable v start end = Some y \<Longrightarrow>
        \<not> (start = 0 \<and> 0 \<le> end \<and> end < int (length ctable) \<and>
           (\<forall>j < length ctable. v \<le> ctable ! j))"
    and unfolded: "(if start \<le> end
      then let middle = start + (end - start) div 2
           in case found_at ctable v start of
                None \<Rightarrow> Some OutOfBounds
              | Some hit \<Rightarrow>
                  if hit
                  then (case read_at cache start of
                          None \<Rightarrow> Some OutOfBounds
                        | Some r \<Rightarrow> Some (Returned r))
                  else (case read_at ctable middle of
                          None \<Rightarrow> Some OutOfBounds
                        | Some mid \<Rightarrow>
                            if v \<le> mid
                            then loop cache ctable v start middle
                            else loop cache ctable v middle end)
      else Some (Returned (Vector3f 0 0 0))) = Some y"
  show "\<not> (start = 0 \<and> 0 \<le> end \<and> end < int (length ctable) \<and>
            (\<forall>j < length ctable. v \<le> ctable ! j))"
  proof
    assume stuck: "start = 0 \<and> 0 \<le> end \<and> end < int (length ctable) \<and>
            (\<forall>j < length ctable. v \<le> ctable ! j)"
    then have s0: "start = 0" and e0: "0 \<le> end" and e1: "end < int (length ctable)"
      and all: "\<forall>j < length ctable. v \<le> ctable ! j"
      by simp_all
    define middle where "middle = start + (end - start) div 2"
    have m0: "0 \<le> middle" "middle \<le> end"
      using s0 e0 unfolding middle_def by presburger+
    with e1 have m: "0 \<le> middle" "middle \<le> end" "middle < int (length ctable)"
      by simp_all
    from e0 e1 have ne: "0 < length ctable" by (cases ctable) auto
    with all have "v \<le> ctable ! 0" by blast
    then have lo: "\<not> ctable ! 0 < v" by simp
    have "found_at ctable v start = Some False"
      using lo ne s0 by (simp add: found_at_def read_at_def)
    moreover from m have "read_at ctable middle = Some (ctable ! nat middle)"
      by (intro read_at_in_range) auto
    moreover from all m have "v \<le> ctable ! nat middle" by simp
    moreover have "start \<le> end" using s0 e0 by simp
    ultimately have "loop cache ctable v start middle = Some y"
      using unfolded by (simp add: Let_def middle_def [symmetric])
    from IH [OF this] s0 m e1 all show False by simp
  qed
qed

lemma BinarySearch_diverges:
  assumes "0 \<le> n" "n < int (length ctable)" "\<forall>j < length ctable. v \<le> ctable ! j"
  shows "BinarySearch cache ctable v n = None"
proof (cases "BinarySearch cache ctable v n")
  case None
  then show ?thesis .
next
  case (Some y)
  then have "BinarySearch_loop cache ctable v 0 n = Some y"
    by (simp add: BinarySearch_def)
  from BinarySearch_loop_stuck [OF this] assms show ?thesis by simp
qed

lemma prefix_sums_mono:
  fixes ctable weights :: "real list"
  assumes "\<forall>i < k. ctable ! (i + 1) = ctable ! i + weights ! i" "\<forall>i < k. 0 \<le> weights ! i"
  shows "i \<le> j \<Longrightarrow> j \<le> k \<Longrightarrow> ctable ! i \<le> ctable ! j"
proof (induction j)
  case 0
  then show ?case by simp
next
  case (Suc j)
  show ?case
  proof (cases "i = Suc j")
    case True
    then show ?thesis by simp
  next
    case False
    with Suc.prems have "i \<le> j" "j < k" by simp_all
    with Suc.IH have "ctable ! i \<le> ctable ! j" by simp
    moreover from assms \<open>j < k\<close> have "ctable ! j \<le> ctable ! Suc j" by simp
    ultimately show ?thesis by simp
  qed
qed

lemma interval_unique:
  fixes ctable weights :: "real list"
  assumes "\<forall>i < k. ctable ! (i + 1) = ctable ! i + weights ! i" "\<forall>i < k. 0 \<le> weights ! i"
    and "i < k" "ctable ! i < v" "v \<le> ctable ! (i + 1)"
    and "j < k" "ctable ! j < v" "v \<le> ctable ! (j + 1)"
  shows "j = i"
proof (rule ccontr)
  assume "j \<noteq> i"
  then consider "i + 1 \<le> j" | "j + 1 \<le> i" by linarith
  then show False
  proof cases
    case 1
    from prefix_sums_mono [OF assms(1,2) 1] assms(6) have "ctable ! (i + 1) \<le> ctable ! j"
      by simp
    with assms(5,7) show False by simp
  next
    case 2
    from prefix_sums_mono [OF assms(1,2) 2] assms(3) have "ctable ! (j + 1) \<le> ctable ! i"
      by simp
    with assms(4,8) show False by simp
  qed
qed

subsection \<open>The evaluate method\<close>

lemma zero_vector_iff: "vx w = 0 \<and> vy w = 0 \<and> vz w = 0 \<longleftrightarrow> w = Vector3f 0 0 0"
  by (cases w) simp

lemma f_traced_degenerate:
  assumes "AbsCosTheta wo = 0 \<or> AbsCosTheta wi = 0 \<or> vec_add wi wo = Vector3f 0 0 0 \<or>
           flakenumber b = 0"
  shows "f_traced H b wo wi s = ((Degenerate, Spectrum_const 0), s)"
  using assms by (auto simp: f_traced_def Let_def zero_vector_iff)


lemma Pdf_regimes_nan:
  assumes "DK ! 1 = NaN"
  shows "Pdf_regimes b wo wi ctable DK s1 = (0, s1)"
  using assms by (simp add: Pdf_regimes_def Let_def)


lemma Length_zero_iff: "Length w = 0 \<longleftrightarrow> w = Vector3f 0 0 0"
proof -
  have "vx w * vx w + vy w * vy w + vz w * vz w = 0 \<longleftrightarrow> vx w = 0 \<and> vy w = 0 \<and> vz w = 0"
    by (simp add: add_nonneg_eq_0_iff)
  then show ?thesis
    by (simp add: Length_def zero_vector_iff)
qed

lemma f_value: "fst (f H b wo wi s) = snd (fst (f_traced H b wo wi s))"
  by (simp add: f_def split: prod.split)

lemma f_state: "snd (f H b wo wi s) = snd (f_traced H b wo wi s)"
  by (simp add: f_def split: prod.split)

lemma axis_bxdf_simps [simp]:
  "flakenumber (axis_bxdf n g) = n" "gamma (axis_bxdf n g) = g"
  "area_A (axis_bxdf n g) = 1" "R (axis_bxdf n g) = Spectrum_const 1"
  "fresnel (axis_bxdf n g) c = Spectrum_const 1"
  "distribution (axis_bxdf n g) = standin_distribution (Vector3f 0 0 1)"
  by (simp_all add: axis_bxdf_def)

lemma axis_geometry [simp]:
  "AbsCosTheta (Vector3f 0 0 1) = 1"
  "vec_add (Vector3f 0 0 1) (Vector3f 0 0 1) = Vector3f 0 0 2"
  "Length (Vector3f 0 0 2) = 2"
  "Normalize (Vector3f 0 0 2) = Vector3f 0 0 1"
  "Normalize (Vector3f 0 0 1) = Vector3f 0 0 1"
  "SameHemisphere (Vector3f 0 0 1) (Vector3f 0 0 1)"
  "\<not> SameHemisphere (Vector3f 0 0 1) (Vector3f 0 0 (- 1))"
  "Dot (Vector3f 0 0 1) (Vector3f 0 0 1) = 1"
proof -
  have four: "sqrt 4 = 2"
    using real_sqrt_abs [of 2] by simp
  show "AbsCosTheta (Vector3f 0 0 1) = 1"
    "vec_add (Vector3f 0 0 1) (Vector3f 0 0 1) = Vector3f 0 0 2"
    "SameHemisphere (Vector3f 0 0 1) (Vector3f 0 0 1)"
    "\<not> SameHemisphere (Vector3f 0 0 1) (Vector3f 0 0 (- 1))"
    "Dot (Vector3f 0 0 1) (Vector3f 0 0 1) = 1"
    "Normalize (Vector3f 0 0 1) = Vector3f 0 0 1"
    by (simp_all add: AbsCosTheta_def vec_add_def SameHemisphere_def Dot_def Normalize_def
        Length_def)
  show l: "Length (Vector3f 0 0 2) = 2"
    by (simp add: Length_def four)
  show "Normalize (Vector3f 0 0 2) = Vector3f 0 0 1"
    by (simp add: Normalize_def l)
qed


subsection \<open>The sample method\<close>




lemma RAND_MAX_pos [simp]: "0 < RAND_MAX" "RAND_MAX \<noteq> 0"
  by (simp_all add: RAND_MAX_def)













lemma axis_cache:
  "CreateReflectionCache (Vector3f 0 0 1) [] [] [] (flakenumber (axis_bxdf n g)) [] zero_tape =
     ((replicate (nat n) (Vector3f 0 0 (- 1)), replicate (nat n) (Vector3f 0 0 1),
       replicate (nat n) 1, 0 # cumulative 0 (replicate (nat n) 1)), zero_tape)"
  by (simp add: cache_axis)

lemma axis_density:
  "cos g \<le> 1 \<Longrightarrow>
   real (nat n) =
      raw_density (Vector3f 0 0 1) (replicate (nat n) 1)
        (replicate (nat n) (Vector3f 0 0 1)) (flakenumber (axis_bxdf n g))
        (gamma (axis_bxdf n g))"
  by (simp add: density_axis)

lemma axis_nondegenerate:
  "AbsCosTheta (Vector3f 0 0 1) \<noteq> 0"
  "Length (vec_add (Vector3f 0 0 1) (Vector3f 0 0 1)) \<noteq> 0"
  by simp_all

subsection \<open>Densities reported by the sample method\<close>









lemma flipped_bxdf_simps [simp]:
  "flakenumber (flipped_bxdf n g) = n" "gamma (flipped_bxdf n g) = g"
  "area_A (flipped_bxdf n g) = 1" "R (flipped_bxdf n g) = Spectrum_const 1"
  "fresnel (flipped_bxdf n g) c = Spectrum_const 1"
  "distribution (flipped_bxdf n g) = standin_distribution (Vector3f 0 0 (- 1))"
  by (simp_all add: flipped_bxdf_def)








subsection \<open>A draw of zero\<close>

text \<open>
  When \<^verbatim>\<open>rand()\<close> returns \<open>0\<close> for the cumulative target, \<open>Sample_f\<close> searches for the
  target \<open>0\<close>, no entry of the table lies below the target, and the search, hence
  \<open>Sample_f\<close>, never returns.
\<close>

lemma Sample_f_hangs_on_zero_draw:
  assumes "0 < n" "n < 1000"
  shows "Sample_f H (axis_bxdf n g) (Vector3f 0 0 1) u pdf zero_tape = None"
proof -
  let ?ws = "replicate (nat n) (1::real)"
  let ?ctable = "0 # cumulative 0 ?ws"
  have rf: "RandomFloat 0 x zero_tape = (0, zero_tape)" for x
    by (simp add: RandomFloat_def rand_def Let_def)
  have "0 \<le> ?ctable ! j" if "j < length ?ctable" for j
  proof -
    from that have j: "j \<le> length ?ws" by (simp add: length_cumulative)
    have "0 \<le> sum_list (take j ?ws)"
      by (rule sum_list_nonneg_real) (auto dest: in_set_takeD)
    with ctable_nth [OF j] show ?thesis by simp
  qed
  then have "BinarySearch (replicate (nat n) (Vector3f 0 0 1)) ?ctable 0 n = None"
    using assms by (intro BinarySearch_diverges) (simp_all add: length_cumulative)
  then show ?thesis
    using assms by (simp add: Sample_f_def cache_axis rf Let_def)
qed




lemma reflect_axis [simp]: "Reflect (Vector3f 0 0 1) (Vector3f 0 0 1) = Vector3f 0 0 1"
  by (simp add: Reflect_def vec_add_def vec_neg_def vec_scale_def Dot_def)

subsection \<open>The two parts of the evaluate method\<close>

lemma f_traced_split:
  assumes "AbsCosTheta wo \<noteq> 0" "AbsCosTheta wi \<noteq> 0" "vec_add wi wo \<noteq> Vector3f 0 0 0"
    and "flakenumber b \<noteq> 0"
    and "CreateReflectionCache wo [] [] [] (flakenumber b) [] s
           = ((normals, rcache, weights, ctable), s1)"
  shows "f_traced H b wo wi s =
           f_regimes H b wo wi (Normalize (vec_add wi wo))
             (CalculateDistribution wi weights rcache (flakenumber b) (gamma b)) s1"
  using assms by (simp add: f_traced_def Let_def zero_vector_iff)

lemma f_regimes_char:
  "f_regimes H b wo wi (Normalize (vec_add wi wo)) DK s1 =
     (case DK ! 0 of
        NaN \<Rightarrow> ((Degenerate, Spectrum_const 0), s1)
      | Num d \<Rightarrow>
          if d = 0 then ((Degenerate, Spectrum_const 0), s1)
          else if flakenumber b < 1000
               then ((Discrete, fst (f_discrete H b wo wi d s1)), snd (f_discrete H b wo wi d s1))
               else ((Continuous, f_continuous H b wo wi), s1))"
  by (simp add: f_regimes_def f_discrete_def f_continuous_def Let_def
      split: double.split prod.split)

text \<open>
  A cache that misses the cone: for \<open>wo = (0, 0, 1)\<close> and a generator that returns zeros,
  every cached reflection is \<open>(0, 0, 1)\<close>; none lies within the cone of half-angle \<open>0\<close>
  about \<open>wi = (3/5, 0, 4/5)\<close>, and the density estimate is zero.
\<close>

lemma off_cone_geometry [simp]:
  "AbsCosTheta (Vector3f (3 / 5) 0 (4 / 5)) = 4 / 5"
  "vec_add (Vector3f (3 / 5) 0 (4 / 5)) (Vector3f 0 0 1) = Vector3f (3 / 5) 0 (9 / 5)"
  "Dot (Vector3f (3 / 5) 0 (4 / 5)) (Vector3f 0 0 1) = 4 / 5"
  by (simp_all add: AbsCosTheta_def vec_add_def Dot_def)

lemma raw_density_off_cone:
  "raw_density (Vector3f (3 / 5) 0 (4 / 5)) (replicate (nat n) 1)
     (replicate (nat n) (Vector3f 0 0 1)) n 0 = 0"
  unfolding raw_density_sum by (rule sum.neutral) simp

lemma f_traced_off_cone:
  assumes "n \<noteq> 0"
  shows "f_traced H (axis_bxdf n 0) (Vector3f 0 0 1) (Vector3f (3 / 5) 0 (4 / 5)) zero_tape
           = ((Degenerate, Spectrum_const 0), zero_tape)"
  using assms
  by (simp add: f_traced_def f_regimes_def Let_def cache_axis raw_density_off_cone)


section \<open>The properties of the specification\<close>







text \<open>
  \<^bold>\<open>C3\<close> at the lower boundary. For the table \<open>[0, 1]\<close> of the single weight \<open>1\<close> and the target
  \<open>0\<close>, no entry has \<open>table[i] < target\<close>, and the search does not return: after the first
  iteration \<open>start = end = 0\<close>, and every further iteration leaves both unchanged.
\<close>

theorem BinarySearch_zero_target_diverges:
  "BinarySearch [Vector3f 0 0 1] [0, 1] 0 1 = None"
  by (rule BinarySearch_diverges) (auto simp: nth_Cons')

text \<open>
  \<^bold>\<open>C3\<close> (as amended). For every cumulative table of length \<open>n + 1\<close> built as prefix sums of
  non-negative weights starting at \<open>table[0] = 0\<close>, and every target in the half-open range
  \<open>(0, table[n]]\<close>, including the upper boundary \<open>table[n]\<close>, \<open>BinarySearch\<close> returns, without
  reading outside the vectors, the cached direction of the one entry \<open>i\<close> with
  \<open>table[i] < target \<le> table[i + 1]\<close>.
\<close>

theorem BinarySearch_selects:
  assumes len: "length ctable = nat n + 1" "length cache = nat n"
    and first: "ctable ! 0 = 0"
    and sums: "\<forall>i < nat n. ctable ! (i + 1) = ctable ! i + weights ! i"
    and nonneg: "\<forall>i < nat n. 0 \<le> weights ! i"
    and target: "0 < v" "v \<le> ctable ! nat n"
  shows "\<exists>i < nat n.
           BinarySearch cache ctable v n = Some (Returned (cache ! i)) \<and>
           ctable ! i < v \<and> v \<le> ctable ! (i + 1) \<and>
           (\<forall>j < nat n. ctable ! j < v \<and> v \<le> ctable ! (j + 1) \<longrightarrow> j = i)"
proof -
  from first target have "nat n \<noteq> 0"
    by (cases "nat n = 0") auto
  then have n: "0 < n" by simp
  have l: "int (length ctable) = n + 1" "int (length cache) = n"
    using len n by simp_all
  have "\<exists>i. 0 \<le> i \<and> i < n \<and>
           BinarySearch_loop cache ctable v 0 n = Some (Returned (cache ! nat i)) \<and>
           ctable ! nat i < v \<and> v \<le> ctable ! nat (i + 1)"
    using first target n by (intro BinarySearch_loop_finds [OF l]) simp_all
  then obtain i where i: "0 \<le> i" "i < n"
    "BinarySearch_loop cache ctable v 0 n = Some (Returned (cache ! nat i))"
    "ctable ! nat i < v" "v \<le> ctable ! nat (i + 1)"
    by blast
  from i(1) have suc: "nat (i + 1) = nat i + 1" by simp
  have k: "nat i < nat n" using i(1,2) by simp
  have uniq: "\<forall>j < nat n. ctable ! j < v \<and> v \<le> ctable ! (j + 1) \<longrightarrow> j = nat i"
    using interval_unique [OF sums nonneg k i(4) i(5) [unfolded suc]] by blast
  show ?thesis
    using k i(3,4,5) uniq unfolding suc BinarySearch_def by blast
qed

theorem BinarySearch_selects_witness:
  "length [0, 1, 2 :: real] = nat 2 + 1 \<and> length [Vector3f 1 0 0, Vector3f 0 1 0] = nat 2 \<and>
   [0, 1, 2 :: real] ! 0 = 0 \<and> (0::real) < 2 \<and> (2::real) \<le> [0, 1, 2] ! nat 2 \<and>
   BinarySearch [Vector3f 1 0 0, Vector3f 0 1 0] [0, 1, 2] 2 2
     = Some (Returned ([Vector3f 1 0 0, Vector3f 0 1 0] ! 1)) \<and>
   [0, 1, 2 :: real] ! 1 < 2 \<and> (2::real) \<le> [0, 1, 2] ! (1 + 1)"
proof -
  have len: "length [0, 1, 2 :: real] = nat 2 + 1"
    "length [Vector3f 1 0 0, Vector3f 0 1 0] = nat 2"
    by simp_all
  have first: "[0, 1, 2 :: real] ! 0 = 0" by simp
  have sums: "\<forall>i < nat 2. [0, 1, 2 :: real] ! (i + 1) = [0, 1, 2] ! i + [1, 1] ! i"
    by (auto simp: nth_Cons' less_Suc_eq numeral_2_eq_2)
  have nonneg: "\<forall>i < nat 2. 0 \<le> [1, 1 :: real] ! i"
    by (auto simp: nth_Cons')
  have target: "(0::real) < 2" "(2::real) \<le> [0, 1, 2] ! nat 2" by simp_all
  from BinarySearch_selects [OF len first sums nonneg target]
  obtain i where i: "i < nat 2"
    "BinarySearch [Vector3f 1 0 0, Vector3f 0 1 0] [0, 1, 2] 2 2
       = Some (Returned ([Vector3f 1 0 0, Vector3f 0 1 0] ! i))"
    "[0, 1, 2 :: real] ! i < 2" "(2::real) \<le> [0, 1, 2] ! (i + 1)"
    by blast
  from i(1,4) have "i = 1"
    by (cases "i = 0") auto
  with i show ?thesis by simp
qed



text \<open>
  \<^bold>\<open>C5.\<close> \<open>f\<close> returns exactly zero scattering whenever either direction has zero
  z-component magnitude, or \<open>wi + wo\<close> has zero length, or the flake count is zero (it
  then returns before the cache is drawn, and leaves the generator as it was), or the
  normalized density estimate \<^verbatim>\<open>DK[0]\<close> is not-a-number or zero. The last of these returns
  is the validation check that opens the second part of \<open>f\<close>: past the four earlier
  returns \<open>f\<close> is its second part applied to the density of the cache, and the second
  part returns zero for every vector \<^verbatim>\<open>DK\<close> whose first entry is not-a-number or zero,
  whatever the flake count. \<open>f\<close> is a total function: no input raises an error. The
  directions of this embedding have real components, so the density that \<open>f\<close> itself
  computes is a number; the return for not-a-number is stated of the second part, for
  every \<^verbatim>\<open>DK\<close>.
\<close>

theorem f_degenerate_returns_zero:
  assumes cache: "CreateReflectionCache wo [] [] [] (flakenumber b) [] s
                    = ((normals, rcache, weights, ctable), s1)"
    and DK: "DK = CalculateDistribution wi weights rcache (flakenumber b) (gamma b)"
  shows "(AbsCosTheta wo = 0 \<or> AbsCosTheta wi = 0 \<or> Length (vec_add wi wo) = 0 \<or>
          flakenumber b = 0
            \<longrightarrow> f H b wo wi s = (Spectrum_const 0, s)) \<and>
         (\<not> (AbsCosTheta wo = 0 \<or> AbsCosTheta wi = 0 \<or> Length (vec_add wi wo) = 0 \<or>
             flakenumber b = 0)
            \<longrightarrow> f_traced H b wo wi s
                  = f_regimes H b wo wi (Normalize (vec_add wi wo)) DK s1) \<and>
         (\<forall>DK' wh t. double_ne (DK' ! 0) (DK' ! 0) \<or> \<not> double_true (DK' ! 0)
            \<longrightarrow> f_regimes H b wo wi wh DK' t = ((Degenerate, Spectrum_const 0), t)) \<and>
         (AbsCosTheta wo = 0 \<or> AbsCosTheta wi = 0 \<or> Length (vec_add wi wo) = 0 \<or>
          flakenumber b = 0 \<or> double_ne (DK ! 0) (DK ! 0) \<or> \<not> double_true (DK ! 0)
            \<longrightarrow> fst (f H b wo wi s) = Spectrum_const 0)"
proof -
  let ?geo = "AbsCosTheta wo = 0 \<or> AbsCosTheta wi = 0 \<or> Length (vec_add wi wo) = 0 \<or>
          flakenumber b = 0"
  have early: "f H b wo wi s = (Spectrum_const 0, s)" if "?geo"
    using that by (simp add: f_def f_traced_degenerate Length_zero_iff)
  have split: "f_traced H b wo wi s
                  = f_regimes H b wo wi (Normalize (vec_add wi wo)) DK s1" if "\<not> ?geo"
    using that
    by (simp only: DK) (intro f_traced_split [OF _ _ _ _ cache], simp_all add: Length_zero_iff)
  have check: "f_regimes H b wo wi wh DK' t = ((Degenerate, Spectrum_const 0), t)"
    if "double_ne (DK' ! 0) (DK' ! 0) \<or> \<not> double_true (DK' ! 0)" for DK' wh t
    using that by (simp add: f_regimes_def Let_def)
  have "fst (f H b wo wi s) = Spectrum_const 0"
    if "?geo \<or> double_ne (DK ! 0) (DK ! 0) \<or> \<not> double_true (DK ! 0)"
  proof (cases "?geo")
    case True
    then show ?thesis by (simp add: early)
  next
    case False
    with that have "double_ne (DK ! 0) (DK ! 0) \<or> \<not> double_true (DK ! 0)" by blast
    then show ?thesis
      by (simp add: f_value split [OF False] check)
  qed
  with early split check show ?thesis by blast
qed

theorem f_degenerate_returns_zero_witness:
  "CalculateDistribution (Vector3f (3 / 5) 0 (4 / 5)) [1, 1]
       [Vector3f 0 0 1, Vector3f 0 0 1] (flakenumber (axis_bxdf 2 0)) (gamma (axis_bxdf 2 0))
     = [Num 0, Num 0] \<and>
   \<not> double_true ([Num 0, Num 0] ! 0) \<and>
   fst (f standin_tint (axis_bxdf 2 0) (Vector3f 0 0 1) (Vector3f (3 / 5) 0 (4 / 5)) zero_tape)
     = Spectrum_const 0 \<and>
   double_ne ([NaN, Num 2] ! 0) ([NaN, Num 2] ! 0) \<and>
   f_regimes standin_tint (axis_bxdf 2 0) (Vector3f 0 0 1) (Vector3f (3 / 5) 0 (4 / 5))
       (Vector3f 0 0 1) [NaN, Num 2] zero_tape
     = ((Degenerate, Spectrum_const 0), zero_tape) \<and>
   AbsCosTheta (Vector3f 1 0 0) = 0 \<and>
   f standin_tint (axis_bxdf 2 0) (Vector3f 0 0 1) (Vector3f 1 0 0) zero_tape
     = (Spectrum_const 0, zero_tape)"
proof -
  have c: "CreateReflectionCache (Vector3f 0 0 1) [] [] [] (flakenumber (axis_bxdf 2 0)) []
      zero_tape
     = (([Vector3f 0 0 (- 1), Vector3f 0 0 (- 1)], [Vector3f 0 0 1, Vector3f 0 0 1],
         [1, 1], [0, 1, 2]), zero_tape)"
    by (simp add: cache_axis_2)
  have r: "raw_density (Vector3f (3 / 5) 0 (4 / 5)) [1, 1] [Vector3f 0 0 1, Vector3f 0 0 1] 2 0
             = 0"
    using raw_density_off_cone [of 2] by (simp add: numeral_2_eq_2)
  have d: "CalculateDistribution (Vector3f (3 / 5) 0 (4 / 5)) [1, 1]
       [Vector3f 0 0 1, Vector3f 0 0 1] (flakenumber (axis_bxdf 2 0)) (gamma (axis_bxdf 2 0))
     = [Num 0, Num 0]"
    by (simp add: r)
  have z: "AbsCosTheta (Vector3f 1 0 0) = 0"
    by (simp add: AbsCosTheta_def)
  note off = f_degenerate_returns_zero [where H = standin_tint
      and wi = "Vector3f (3 / 5) 0 (4 / 5)", OF c refl]
  note flat = f_degenerate_returns_zero [where H = standin_tint
      and wi = "Vector3f 1 0 0", OF c refl]
  from off d have 1: "fst (f standin_tint (axis_bxdf 2 0) (Vector3f 0 0 1)
      (Vector3f (3 / 5) 0 (4 / 5)) zero_tape) = Spectrum_const 0"
    by simp
  from off have 2: "f_regimes standin_tint (axis_bxdf 2 0) (Vector3f 0 0 1)
       (Vector3f (3 / 5) 0 (4 / 5)) (Vector3f 0 0 1) [NaN, Num 2] zero_tape
     = ((Degenerate, Spectrum_const 0), zero_tape)"
    by simp
  from flat z have 3: "f standin_tint (axis_bxdf 2 0) (Vector3f 0 0 1) (Vector3f 1 0 0) zero_tape
     = (Spectrum_const 0, zero_tape)"
    by simp
  from d 1 2 3 z show ?thesis by simp
qed




text \<open>
  \<^bold>\<open>C7.\<close> For every outgoing direction \<open>wo\<close>, every flake count \<open>n \<ge> 1\<close> and every
  state of the random generator, the cumulative table that \<open>CreateReflectionCache\<close>
  produces (from empty vectors) has \<open>n + 1\<close> entries, its first entry is \<open>0\<close>, each entry
  is the previous entry plus the weight of that index, it is non-decreasing, and its last
  entry is the sum of the \<open>n\<close> weights.
\<close>

theorem cumulative_table_invariant:
  assumes "1 \<le> n"
    and "CreateReflectionCache wo [] [] [] n [] s = ((normals, rcache, weights, ctable), s')"
  shows "length weights = nat n \<and> length ctable = nat n + 1 \<and> ctable ! 0 = 0 \<and>
         (\<forall>i < nat n. ctable ! (i + 1) = ctable ! i + weights ! i) \<and>
         sorted ctable \<and> last ctable = sum_list weights"
proof -
  note sh = cache_shape [OF assms(2)]
  have len: "length ctable = nat n + 1"
    using sh(3,4) by (simp add: length_cumulative)
  have step: "\<forall>i < nat n. ctable ! (i + 1) = ctable ! i + weights ! i"
    using sh(3,4) ctable_step [of _ weights] by simp
  have srt: "sorted ctable"
    using sh(4,5) ctable_sorted [of weights] by simp
  have "ctable \<noteq> []"
    using len by auto
  then have "last ctable = ctable ! nat n"
    using len by (simp add: last_conv_nth)
  also have "\<dots> = sum_list weights"
    using sh(3,4) ctable_last [of weights] by simp
  finally have lst: "last ctable = sum_list weights" .
  show ?thesis
    using sh(3,4) len step srt lst by simp
qed

theorem cumulative_table_invariant_witness:
  "(1::int) \<le> 2 \<and>
   CreateReflectionCache (Vector3f 0 0 1) [] [] [] 2 [] zero_tape =
     (([Vector3f 0 0 (- 1), Vector3f 0 0 (- 1)], [Vector3f 0 0 1, Vector3f 0 0 1],
       [1, 1], [0, 1, 2]), zero_tape) \<and>
   length [1, 1 :: real] = nat 2 \<and> length [0, 1, 2 :: real] = nat 2 + 1 \<and>
   [0, 1, 2 :: real] ! 0 = 0 \<and>
   [0, 1, 2 :: real] ! (0 + 1) = [0, 1, 2] ! 0 + [1, 1] ! 0 \<and>
   [0, 1, 2 :: real] ! (1 + 1) = [0, 1, 2] ! 1 + [1, 1] ! 1 \<and>
   sorted [0, 1, 2 :: real] \<and> last [0, 1, 2 :: real] = sum_list [1, 1]"
proof -
  have n: "(1::int) \<le> 2" by simp
  have run: "CreateReflectionCache (Vector3f 0 0 1) [] [] [] 2 [] zero_tape =
     (([Vector3f 0 0 (- 1), Vector3f 0 0 (- 1)], [Vector3f 0 0 1, Vector3f 0 0 1],
       [1, 1], [0, 1, 2]), zero_tape)"
    by (simp add: CreateReflectionCache_char numeral_2_eq_2 RandomVector_zero_tape
        cache_entry_axis Let_def)
  show ?thesis
    using n run cumulative_table_invariant [OF n run] by simp
qed

text \<open>
  \<^bold>\<open>C8\<close> as stated fails. \<open>f\<close> draws the cache and checks the density estimate for every
  flake count, also in the continuous regime. For the non-degenerate directions
  \<open>wo = (0, 0, 1)\<close>, \<open>wi = (3/5, 0, 4/5)\<close>, flake count \<open>1000\<close> and cone half-angle \<open>0\<close>, with
  a generator that returns zeros, no cached reflection lies in the cone about \<open>wi\<close>, and
  \<open>f\<close> returns zero, where the closed form is \<open>5/16\<close> in every component.
\<close>

theorem f_zero_despite_closed_form:
  "AbsCosTheta (Vector3f 0 0 1) \<noteq> 0 \<and> AbsCosTheta (Vector3f (3 / 5) 0 (4 / 5)) \<noteq> 0 \<and>
   Length (vec_add (Vector3f (3 / 5) 0 (4 / 5)) (Vector3f 0 0 1)) \<noteq> 0 \<and>
   1000 \<le> flakenumber (axis_bxdf 1000 0) \<and>
   f standin_tint (axis_bxdf 1000 0) (Vector3f 0 0 1) (Vector3f (3 / 5) 0 (4 / 5)) zero_tape
     = (Spectrum_const 0, zero_tape) \<and>
   microfacet_closed_form (R (axis_bxdf 1000 0))
       (md_D (distribution (axis_bxdf 1000 0))
          (Normalize (vec_add (Vector3f (3 / 5) 0 (4 / 5)) (Vector3f 0 0 1))))
       (md_G (distribution (axis_bxdf 1000 0)) (Vector3f 0 0 1) (Vector3f (3 / 5) 0 (4 / 5)))
       (fresnel (axis_bxdf 1000 0)
          (Dot (Vector3f (3 / 5) 0 (4 / 5))
             (Normalize (vec_add (Vector3f (3 / 5) 0 (4 / 5)) (Vector3f 0 0 1)))))
       (FromRGB (AverageColor standin_tint))
       (AbsCosTheta (Vector3f (3 / 5) 0 (4 / 5))) (AbsCosTheta (Vector3f 0 0 1))
     = RGBSpectrum (5 / 16) (5 / 16) (5 / 16) \<and>
   RGBSpectrum (5 / 16) (5 / 16) (5 / 16) \<noteq> Spectrum_const 0"
proof -
  have "Length (Vector3f (3 / 5) 0 (9 / 5)) \<noteq> 0"
    by (simp add: Length_zero_iff)
  then show ?thesis
    by (simp add: f_def f_traced_off_cone microfacet_closed_form_def Spectrum_const_def
        FromRGB_def)
qed

text \<open>
  \<^bold>\<open>C8\<close> (as amended). For non-degenerate \<open>wo\<close>, \<open>wi\<close>, flake count \<open>n \<ge> 1000\<close> and every
  state of the generator, with \<open>D\<close> the raw density of the cache that \<open>f\<close> draws: \<open>f\<close>
  returns zero when \<open>D\<close> is zero, and otherwise the closed form
  \<open>R * D(wh) * G(wo, wi) * Fresnel(Dot(wi, wh)) * tint / (4 * cosThetaI * cosThetaO)\<close> with
  \<open>wh = Normalize(wi + wo)\<close> and the average tint colour, for any Fresnel model and
  distribution; in both cases it leaves the generator as the cache left it. The equality
  is one of real numbers: the source multiplies in the order \<open>((R * D) * G) * (F * tint)\<close>,
  which agrees with the closed form by associativity, and nothing is said about rounding.
\<close>

theorem f_continuous_closed_form:
  assumes nondeg: "AbsCosTheta wo \<noteq> 0" "AbsCosTheta wi \<noteq> 0" "Length (vec_add wi wo) \<noteq> 0"
    and n: "1000 \<le> flakenumber b"
    and cache: "CreateReflectionCache wo [] [] [] (flakenumber b) [] s
                  = ((normals, rcache, weights, ctable), s1)"
    and D: "D = raw_density wi weights rcache (flakenumber b) (gamma b)"
    and wh: "wh = Normalize (vec_add wi wo)"
  shows "f H b wo wi s =
           (if D = 0 then Spectrum_const 0
            else microfacet_closed_form (R b) (md_D (distribution b) wh)
                   (md_G (distribution b) wo wi) (fresnel b (Dot wi wh))
                   (FromRGB (AverageColor H)) (AbsCosTheta wi) (AbsCosTheta wo),
            s1)"
proof -
  from nondeg(3) have whz: "vec_add wi wo \<noteq> Vector3f 0 0 0"
    by (simp add: Length_zero_iff)
  from n have n0: "flakenumber b \<noteq> 0" by simp
  have "f_traced H b wo wi s =
          f_regimes H b wo wi (Normalize (vec_add wi wo))
            [Num (D / 100000000), Num D] s1"
    by (simp add: f_traced_split [OF nondeg(1,2) whz n0 cache] D)
  with n have "f H b wo wi s = (if D = 0 then Spectrum_const 0 else f_continuous H b wo wi, s1)"
    by (simp add: f_def f_regimes_char)
  moreover have "f_continuous H b wo wi = microfacet_closed_form (R b) (md_D (distribution b) wh)
             (md_G (distribution b) wo wi) (fresnel b (Dot wi wh)) (FromRGB (AverageColor H))
             (AbsCosTheta wi) (AbsCosTheta wo)"
    by (simp add: f_continuous_def microfacet_closed_form_def Let_def wh
        spec_div_def spec_mul_def spec_scale_def)
  ultimately show ?thesis by simp
qed

theorem f_continuous_closed_form_witness:
  "AbsCosTheta (Vector3f 0 0 1) \<noteq> 0 \<and> Length (vec_add (Vector3f 0 0 1) (Vector3f 0 0 1)) \<noteq> 0 \<and>
   1000 \<le> flakenumber (axis_bxdf 1000 pi) \<and>
   Vector3f 0 0 1 = Normalize (vec_add (Vector3f 0 0 1) (Vector3f 0 0 1)) \<and>
   f standin_tint (axis_bxdf 1000 pi) (Vector3f 0 0 1) (Vector3f 0 0 1) zero_tape
     = (microfacet_closed_form (Spectrum_const 1) 1 1 (Spectrum_const 1) (FromRGB (Point3f 1 1 1))
          1 1, zero_tape) \<and>
   f standin_tint (axis_bxdf 1000 pi) (Vector3f 0 0 1) (Vector3f 0 0 1) zero_tape
     = (RGBSpectrum (1 / 4) (1 / 4) (1 / 4), zero_tape)"
proof -
  have g: "cos pi \<le> 1" by simp
  have n: "1000 \<le> flakenumber (axis_bxdf 1000 pi)" by simp
  have wh: "Vector3f 0 0 1 = Normalize (vec_add (Vector3f 0 0 1) (Vector3f 0 0 1))" by simp
  note closed = f_continuous_closed_form [OF axis_nondegenerate(1) axis_nondegenerate(1)
      axis_nondegenerate(2) n axis_cache [of 1000 pi] axis_density [OF g, of 1000] wh,
      of standin_tint]
  then have "f standin_tint (axis_bxdf 1000 pi) (Vector3f 0 0 1) (Vector3f 0 0 1) zero_tape
     = (microfacet_closed_form (Spectrum_const 1) 1 1 (Spectrum_const 1) (FromRGB (Point3f 1 1 1))
         1 1, zero_tape)"
    by simp
  then show ?thesis
    by (simp add: microfacet_closed_form_def Spectrum_const_def FromRGB_def)
qed




end
